theory Spec2Isabelle
  imports Main "HOL-Library.Word"
begin

section \<open>Strings of the platform\<close>

text \<open>
  A JavaScript string is a sequence of 16-bit code units. Literals of the source are
  written \<open>js ''...''\<close>. A string is falsy exactly when it is empty.
\<close>

type_synonym jschar = "16 word"
type_synonym jsstring = "jschar list"

definition js :: "string \<Rightarrow> jsstring" where
  "js s = map of_char s"

text \<open>
  \<^verbatim>\<open>String.prototype.trim\<close> removes WhiteSpace and LineTerminator code units from both
  ends: TAB, LF, VT, FF, CR, SP, NBSP, U+1680, U+2000..U+200A, U+2028, U+2029, U+202F,
  U+205F, U+3000 and U+FEFF.
\<close>

definition isWhiteSpace :: "jschar \<Rightarrow> bool" where
  "isWhiteSpace c \<longleftrightarrow>
     (0x0009 \<le> c \<and> c \<le> 0x000D) \<or> c = 0x0020 \<or> c = 0x00A0 \<or> c = 0x1680 \<or>
     (0x2000 \<le> c \<and> c \<le> 0x200A) \<or> c = 0x2028 \<or> c = 0x2029 \<or> c = 0x202F \<or>
     c = 0x205F \<or> c = 0x3000 \<or> c = 0xFEFF"

definition trim :: "jsstring \<Rightarrow> jsstring" where
  "trim s = rev (dropWhile isWhiteSpace (rev (dropWhile isWhiteSpace s)))"

text \<open>
  \<^verbatim>\<open>value.split(',')\<close> with a one-unit separator: the empty string gives one empty
  piece, and n separators give n + 1 pieces.
\<close>

fun split :: "jschar \<Rightarrow> jsstring \<Rightarrow> jsstring list" where
  "split sep [] = [[]]"
| "split sep (c # cs) =
     (if c = sep then [] # split sep cs
      else (case split sep cs of [] \<Rightarrow> [[c]] | p # ps \<Rightarrow> (c # p) # ps))"

text \<open>\<^verbatim>\<open>baseUrl.endsWith('/')\<close> for a one-unit suffix.\<close>

definition endsWith :: "jsstring \<Rightarrow> jschar \<Rightarrow> bool" where
  "endsWith s c \<longleftrightarrow> s \<noteq> [] \<and> last s = c"

fun join :: "jsstring \<Rightarrow> jsstring list \<Rightarrow> jsstring" where
  "join sep [] = []"
| "join sep [x] = x"
| "join sep (x # y # ys) = x @ sep @ join sep (y # ys)"

section \<open>FormData, Set and the form's controls\<close>

text \<open>
  \<^verbatim>\<open>new FormData(form)\<close> is the form's entry list: (name, value) pairs in tree order,
  names may repeat. The values are strings, as in the specification's snapshot (a file
  input would contribute a File object). The entries are scalar value strings already,
  so the conversion that \<^verbatim>\<open>URLSearchParams\<close> applies to the arguments of \<^verbatim>\<open>set\<close> and
  \<^verbatim>\<open>append\<close> leaves them as they are.
\<close>

type_synonym formdata = "(jsstring \<times> jsstring) list"

definition FormData_keys :: "formdata \<Rightarrow> jsstring list" where
  "FormData_keys fd = map fst fd"

definition FormData_getAll :: "formdata \<Rightarrow> jsstring \<Rightarrow> jsstring list" where
  "FormData_getAll fd key = map snd (filter (\<lambda>e. fst e = key) fd)"

text \<open>
  \<^verbatim>\<open>new Set(array)\<close> adds the items one by one; an item already present is not added
  again, and iteration follows insertion order.
\<close>

definition Set_add :: "'a list \<Rightarrow> 'a \<Rightarrow> 'a list" where
  "Set_add s x = (if x \<in> set s then s else s @ [x])"

definition Set_from :: "'a list \<Rightarrow> 'a list" where
  "Set_from xs = foldl Set_add [] xs"

text \<open>
  The value of \<^verbatim>\<open>form.elements[key]\<close> is one of three things:
  \<^item> \<open>Undefined\<close>: the lookup finds nothing (an entry added by a \<^verbatim>\<open>formdata\<close>
    listener under a name no control has); the value is falsy;
  \<^item> \<open>Control t a\<close>: a form control; \<open>t\<close> is its \<^verbatim>\<open>type\<close> and \<open>a\<close> its
    \<^verbatim>\<open>dataset.array\<close> (\<open>None\<close> when there is no \<^verbatim>\<open>data-array\<close> attribute);
  \<^item> \<open>RadioNodeList\<close>: a truthy value with neither a \<^verbatim>\<open>type\<close> nor a \<^verbatim>\<open>dataset\<close>
    property. This is the node list the lookup returns when several controls share the
    name (a group of checkboxes such as the \<^verbatim>\<open>itemCondition\<close> boxes the source
    mentions); a name that hits a property of the collection itself (\<^verbatim>\<open>item\<close>,
    \<^verbatim>\<open>length\<close>) gives a value that behaves the same in \<^verbatim>\<open>updateUrl\<close>.
\<close>

datatype element =
    Undefined
  | Control (etype: jsstring) (dataset_array: "jsstring option")
  | RadioNodeList

datatype error = TypeError

text \<open>\<^verbatim>\<open>element && element.type === 'checkbox'\<close>: \<^verbatim>\<open>type\<close> of a node list is undefined.\<close>

fun isCheckbox :: "element \<Rightarrow> bool" where
  "isCheckbox Undefined = False"
| "isCheckbox (Control t a) = (t = js ''checkbox'')"
| "isCheckbox RadioNodeList = False"

text \<open>
  \<^verbatim>\<open>element && element.dataset.array === 'comma'\<close>: on a node list \<^verbatim>\<open>element.dataset\<close>
  is undefined and reading \<^verbatim>\<open>.array\<close> of it throws a TypeError.
\<close>

fun isCommaArray :: "element \<Rightarrow> error + bool" where
  "isCommaArray Undefined = Inr False"
| "isCommaArray (Control t a) = Inr (a = Some (js ''comma''))"
| "isCommaArray RadioNodeList = Inl TypeError"

section \<open>URLSearchParams\<close>

type_synonym params = "(jsstring \<times> jsstring) list"

definition params_append :: "params \<Rightarrow> jsstring \<Rightarrow> jsstring \<Rightarrow> params" where
  "params_append ps n v = ps @ [(n, v)]"

text \<open>
  \<^verbatim>\<open>set\<close> overwrites the first pair of that name and removes the later ones; without
  such a pair it appends.
\<close>

fun params_set :: "params \<Rightarrow> jsstring \<Rightarrow> jsstring \<Rightarrow> params" where
  "params_set [] n v = [(n, v)]"
| "params_set ((m, w) # ps) n v =
     (if m = n then (n, v) # filter (\<lambda>e. fst e \<noteq> n) ps
      else (m, w) # params_set ps n v)"

subsection \<open>Serialisation\<close>

text \<open>
  \<^verbatim>\<open>params.toString()\<close> is the application/x-www-form-urlencoded serialiser of the URL
  Standard: each name and value is UTF-8 encoded (an unpaired surrogate as U+FFFD), then
  byte by byte a space becomes \<open>+\<close>, ASCII letters, digits and \<open>* - . _\<close> stay, and
  every other byte becomes \<open>%\<close> and two upper-case hexadecimal digits.
\<close>

definition isSurrogate :: "jschar \<Rightarrow> bool" where
  "isSurrogate c \<longleftrightarrow> 0xD800 \<le> c \<and> c \<le> 0xDFFF"

definition isLeadSurrogate :: "jschar \<Rightarrow> bool" where
  "isLeadSurrogate c \<longleftrightarrow> 0xD800 \<le> c \<and> c \<le> 0xDBFF"

definition isTrailSurrogate :: "jschar \<Rightarrow> bool" where
  "isTrailSurrogate c \<longleftrightarrow> 0xDC00 \<le> c \<and> c \<le> 0xDFFF"

fun codePoints :: "jsstring \<Rightarrow> nat list" where
  "codePoints [] = []"
| "codePoints [c] = [if isSurrogate c then 0xFFFD else unat c]"
| "codePoints (c # d # cs) =
     (if isLeadSurrogate c \<and> isTrailSurrogate d
      then (0x10000 + (unat c - 0xD800) * 0x400 + (unat d - 0xDC00)) # codePoints cs
      else (if isSurrogate c then 0xFFFD else unat c) # codePoints (d # cs))"

definition utf8 :: "nat \<Rightarrow> 8 word list" where
  "utf8 n =
     (if n < 0x80 then [of_nat n]
      else if n < 0x800 then [of_nat (0xC0 + n div 0x40), of_nat (0x80 + n mod 0x40)]
      else if n < 0x10000 then
        [of_nat (0xE0 + n div 0x1000), of_nat (0x80 + n div 0x40 mod 0x40),
         of_nat (0x80 + n mod 0x40)]
      else
        [of_nat (0xF0 + n div 0x40000), of_nat (0x80 + n div 0x1000 mod 0x40),
         of_nat (0x80 + n div 0x40 mod 0x40), of_nat (0x80 + n mod 0x40)])"

definition utf8Encode :: "jsstring \<Rightarrow> 8 word list" where
  "utf8Encode s = concat (map utf8 (codePoints s))"

definition hexDigit :: "nat \<Rightarrow> jschar" where
  "hexDigit d = (if d < 10 then 0x30 + of_nat d else 0x41 + of_nat (d - 10))"

definition percentEncodeByte :: "8 word \<Rightarrow> jsstring" where
  "percentEncodeByte b = [0x25, hexDigit (unat b div 16), hexDigit (unat b mod 16)]"

definition isAlphanumeric :: "8 word \<Rightarrow> bool" where
  "isAlphanumeric b \<longleftrightarrow>
     (0x30 \<le> b \<and> b \<le> 0x39) \<or> (0x41 \<le> b \<and> b \<le> 0x5A) \<or> (0x61 \<le> b \<and> b \<le> 0x7A)"

definition urlencodedKeeps :: "8 word \<Rightarrow> bool" where
  "urlencodedKeeps b \<longleftrightarrow> isAlphanumeric b \<or> b = 0x2A \<or> b = 0x2D \<or> b = 0x2E \<or> b = 0x5F"

definition urlencodeByte :: "8 word \<Rightarrow> jsstring" where
  "urlencodeByte b =
     (if b = 0x20 then [0x2B]
      else if urlencodedKeeps b then [ucast b]
      else percentEncodeByte b)"

definition urlencode :: "jsstring \<Rightarrow> jsstring" where
  "urlencode s = concat (map urlencodeByte (utf8Encode s))"

text \<open>
  The serialiser runs over the pairs with an output string, putting \<open>&\<close> before a pair
  when the output is not empty.
\<close>

fun serialize :: "jsstring \<Rightarrow> params \<Rightarrow> jsstring" where
  "serialize out [] = out"
| "serialize out ((n, v) # ps) =
     serialize ((if out = [] then out else out @ js ''&'') @ urlencode n @ js ''='' @ urlencode v) ps"

definition params_toString :: "params \<Rightarrow> jsstring" where
  "params_toString ps = serialize [] ps"

section \<open>updateUrl\<close>

text \<open>
  The body of the loop over the keys (source lines 73 to 104): what one field, with its
  control \<open>element\<close> and its values \<open>allValues\<close>, does to \<open>params\<close>. The specification
  calls it \<open>encodeField\<close>.
\<close>

definition encodeField :: "element \<Rightarrow> jsstring \<Rightarrow> jsstring list \<Rightarrow> params \<Rightarrow> error + params" where
  "encodeField element key allValues params =
     (if length allValues = 0 then Inr params
      else if length allValues = 1 then
        (let value = allValues ! 0 in
         if value = [] then Inr params
         else if isCheckbox element then Inr (params_set params key (js ''true''))
         else
           (case isCommaArray element of
              Inl e \<Rightarrow> Inl e
            | Inr True \<Rightarrow>
                (let values = filter (\<lambda>s. s \<noteq> []) (map trim (split 0x2C value))
                 in Inr (foldl (\<lambda>p v. params_append p key v) params values))
            | Inr False \<Rightarrow> Inr (params_set params key value)))
      else
        Inr (foldl (\<lambda>p v. if v \<noteq> [] then params_append p key v else p) params allValues))"

text \<open>The loop itself; an exception thrown by the body ends it.\<close>

fun forKeys :: "(jsstring \<Rightarrow> element) \<Rightarrow> formdata \<Rightarrow> jsstring list \<Rightarrow> params \<Rightarrow> error + params" where
  "forKeys elements fd [] params = Inr params"
| "forKeys elements fd (key # keys) params =
     (case encodeField (elements key) key (FormData_getAll fd key) params of
        Inl e \<Rightarrow> Inl e
      | Inr params' \<Rightarrow> forKeys elements fd keys params')"

text \<open>Source lines 66 to 105: the parameters collected from the form.\<close>

definition collectParams :: "formdata \<Rightarrow> (jsstring \<Rightarrow> element) \<Rightarrow> error + params" where
  "collectParams fd elements = forKeys elements fd (Set_from (FormData_keys fd)) []"

record BuildResult =
  queryString :: jsstring
  finalUrl :: jsstring

text \<open>
  Source lines 66 to 115: \<open>queryString\<close> is the local \<^verbatim>\<open>paramString\<close>, \<open>finalUrl\<close> the
  local \<^verbatim>\<open>finalUrl\<close>. The specification calls this part \<open>build\<close>.
\<close>

definition build :: "formdata \<Rightarrow> (jsstring \<Rightarrow> element) \<Rightarrow> jsstring \<Rightarrow> error + BuildResult" where
  "build fd elements baseUrlValue =
     (case collectParams fd elements of
        Inl e \<Rightarrow> Inl e
      | Inr params \<Rightarrow>
          (let paramString = params_toString params;
               baseUrl = (if \<not> endsWith baseUrlValue 0x2F then baseUrlValue @ js ''/''
                          else baseUrlValue)
           in Inr \<lparr>queryString = paramString,
                   finalUrl = baseUrl @ (if paramString \<noteq> [] then js ''?'' @ paramString else [])\<rparr>))"

text \<open>
  The page as \<^verbatim>\<open>updateUrl\<close> sees it: what it reads (the form's entry list, the form's
  controls by name, the base URL input) and what it writes (the preview text area and
  the link), with the lock of the base URL input that \<^verbatim>\<open>toggleLock\<close> flips.
\<close>

record page =
  form_entries :: formdata
  form_elements :: "jsstring \<Rightarrow> element"
  baseUrlInput_value :: jsstring
  baseUrlInput_readOnly :: bool
  generatedUrlTextarea_value :: jsstring
  goToFbButton_href :: jsstring

definition updateUrl :: "page \<Rightarrow> error + page" where
  "updateUrl p =
     (case build (form_entries p) (form_elements p) (baseUrlInput_value p) of
        Inl e \<Rightarrow> Inl e
      | Inr r \<Rightarrow> Inr (p\<lparr>generatedUrlTextarea_value := finalUrl r, goToFbButton_href := finalUrl r\<rparr>))"

section \<open>Derived notions\<close>

text \<open>
  The pairs one field contributes: what the loop body leaves in \<open>params\<close> when it
  starts from no parameters (and nothing when it throws).
\<close>

definition fieldPairs :: "element \<Rightarrow> jsstring \<Rightarrow> jsstring list \<Rightarrow> params" where
  "fieldPairs element key allValues =
     (case encodeField element key allValues [] of Inl e \<Rightarrow> [] | Inr ps \<Rightarrow> ps)"

text \<open>
  The fields on which source line 88 throws: the control lookup gave a node list and the
  field has exactly one value, which is not empty.
\<close>

definition fieldThrows :: "element \<Rightarrow> jsstring list \<Rightarrow> bool" where
  "fieldThrows element allValues \<longleftrightarrow>
     element = RadioNodeList \<and> length allValues = 1 \<and> allValues ! 0 \<noteq> []"

definition formThrows :: "formdata \<Rightarrow> (jsstring \<Rightarrow> element) \<Rightarrow> bool" where
  "formThrows fd elements \<longleftrightarrow>
     list_ex (\<lambda>key. fieldThrows (elements key) (FormData_getAll fd key)) (FormData_keys fd)"

section \<open>The specification's wording of the serialisation\<close>

text \<open>
  The specification asks for "standard URL component percent-encoding" of names and
  values. This is that encoding, written from the specification's words and not from
  the source: the component percent-encode set of the URL Standard (the one
  \<^verbatim>\<open>encodeURIComponent\<close> uses) keeps ASCII letters, digits and \<open>! ' ( ) * - . _ ~\<close> and
  writes every other byte of the UTF-8 encoding, the space included, as \<open>%\<close> and two
  hexadecimal digits.
\<close>

definition componentKeeps :: "8 word \<Rightarrow> bool" where
  "componentKeeps b \<longleftrightarrow>
     isAlphanumeric b \<or> b = 0x21 \<or> b = 0x27 \<or> b = 0x28 \<or> b = 0x29 \<or> b = 0x2A \<or>
     b = 0x2D \<or> b = 0x2E \<or> b = 0x5F \<or> b = 0x7E"

definition spec_componentEncode :: "jsstring \<Rightarrow> jsstring" where
  "spec_componentEncode s =
     concat (map (\<lambda>b. if componentKeeps b then [ucast b] else percentEncodeByte b) (utf8Encode s))"

definition spec_queryString :: "params \<Rightarrow> jsstring" where
  "spec_queryString ps =
     join (js ''&'') (map (\<lambda>(n, v). spec_componentEncode n @ js ''='' @ spec_componentEncode v) ps)"

section \<open>Example inputs\<close>

text \<open>A form none of whose entries has a control.\<close>

definition noControls :: "jsstring \<Rightarrow> element" where
  "noControls key = Undefined"

text \<open>A form whose \<^verbatim>\<open>itemCondition\<close> checkboxes share their name.\<close>

definition itemConditionGroup :: "jsstring \<Rightarrow> element" where
  "itemConditionGroup key = (if key = js ''itemCondition'' then RadioNodeList else Undefined)"

text \<open>
  The end-to-end example of the specification: a select, two checked boxes of a group
  and a comma-separated text input.
\<close>

definition exampleEntries :: formdata where
  "exampleEntries =
     [(js ''sortBy'', js ''price_ascend''), (js ''itemCondition'', js ''new''),
      (js ''itemCondition'', js ''used''), (js ''keywords'', js ''car, truck , '')]"

definition exampleControls :: "jsstring \<Rightarrow> element" where
  "exampleControls key =
     (if key = js ''sortBy'' then Control (js ''select-one'') None
      else if key = js ''itemCondition'' then RadioNodeList
      else if key = js ''keywords'' then Control (js ''text'') (Some (js ''comma''))
      else Undefined)"

definition exampleParams :: params where
  "exampleParams =
     [(js ''sortBy'', js ''price_ascend''), (js ''itemCondition'', js ''new''),
      (js ''itemCondition'', js ''used''), (js ''keywords'', js ''car''),
      (js ''keywords'', js ''truck'')]"

definition exampleQuery :: jsstring where
  "exampleQuery =
     js ''sortBy=price_ascend&itemCondition=new&itemCondition=used&keywords=car&keywords=truck''"

definition exampleUrl :: jsstring where
  "exampleUrl = js ''https://x.com/market/?'' @ exampleQuery"

definition examplePage :: page where
  "examplePage =
     \<lparr>form_entries = exampleEntries, form_elements = exampleControls,
      baseUrlInput_value = js ''https://x.com/market'', baseUrlInput_readOnly = True,
      generatedUrlTextarea_value = [], goToFbButton_href = []\<rparr>"

text \<open>The same form and base URL, unlocked and showing an older result.\<close>

definition stalePage :: page where
  "stalePage =
     examplePage\<lparr>baseUrlInput_readOnly := False, generatedUrlTextarea_value := js ''stale'',
       goToFbButton_href := js ''stale''\<rparr>"

definition updatedPage :: page where
  "updatedPage =
     examplePage\<lparr>generatedUrlTextarea_value := exampleUrl, goToFbButton_href := exampleUrl\<rparr>"

section \<open>The string operations\<close>

text \<open>Splitting loses nothing: joining the pieces with the separator gives the string back.\<close>

lemma split_not_Nil: "split sep s \<noteq> []"
  by (induction s) (auto split: list.splits)

lemma join_split: "join [sep] (split sep s) = s"
proof (induction s)
  case Nil
  show ?case by simp
next
  case (Cons c cs)
  obtain p ps where sp: "split sep cs = p # ps"
    using split_not_Nil [of sep cs] by (cases "split sep cs") auto
  show ?case
  proof (cases "c = sep")
    case True
    with Cons sp show ?thesis by simp
  next
    case False
    with Cons sp show ?thesis by (cases ps) auto
  qed
qed

lemma split_pieces_no_sep: "p \<in> set (split sep s) \<Longrightarrow> sep \<notin> set p"
proof (induction s arbitrary: p)
  case Nil
  then show ?case by simp
next
  case (Cons c cs)
  then show ?case
    by (cases "split sep cs") (auto split: if_splits)
qed

text \<open>
  Trimming removes white space only, and leaves no white space at either end.
\<close>

lemma trim_decomp:
  "\<exists>l r. s = l @ trim s @ r \<and> list_all isWhiteSpace l \<and> list_all isWhiteSpace r"
proof -
  let ?l = "takeWhile isWhiteSpace s"
  let ?m = "dropWhile isWhiteSpace s"
  let ?r = "rev (takeWhile isWhiteSpace (rev ?m))"
  have "?m = trim s @ ?r"
    unfolding trim_def by (metis rev_append rev_rev_ident takeWhile_dropWhile_id)
  then have "s = ?l @ trim s @ ?r"
    by (metis takeWhile_dropWhile_id)
  moreover have "list_all isWhiteSpace ?l"
    by (simp add: list_all_iff) (metis set_takeWhileD)
  moreover have "list_all isWhiteSpace ?r"
    by (simp add: list_all_iff) (metis set_takeWhileD)
  ultimately show ?thesis by blast
qed

lemma trim_ends:
  assumes "trim s \<noteq> []"
  shows "\<not> isWhiteSpace (hd (trim s)) \<and> \<not> isWhiteSpace (last (trim s))"
proof -
  let ?m = "dropWhile isWhiteSpace s"
  let ?k = "dropWhile isWhiteSpace (rev ?m)"
  from assms have k: "?k \<noteq> []" by (simp add: trim_def)
  have m: "?m \<noteq> []"
  proof
    assume "?m = []"
    then have "?k = dropWhile isWhiteSpace (rev [])" by (simp only:)
    then have "?k = []" by (simp only: rev.simps dropWhile.simps)
    with k show False by simp
  qed
  have "\<not> isWhiteSpace (hd ?k)" using k by (rule hd_dropWhile)
  then have l: "\<not> isWhiteSpace (last (trim s))"
    using k by (simp add: trim_def last_rev)
  have hm: "\<not> isWhiteSpace (hd ?m)" using m by (rule hd_dropWhile)
  have "rev ?m = takeWhile isWhiteSpace (rev ?m) @ ?k" by simp
  then have "last (rev ?m) = last ?k" using k by (metis last_appendR)
  then have "last ?k = hd ?m" using m by (simp add: last_rev)
  with hm have "\<not> isWhiteSpace (hd (trim s))"
    using k by (simp add: trim_def hd_rev)
  with l show ?thesis by simp
qed

section \<open>Set and URLSearchParams\<close>

lemma set_foldl_Set_add: "set (foldl Set_add s xs) = set s \<union> set xs"
  by (induction xs arbitrary: s) (auto simp: Set_add_def)

lemma distinct_foldl_Set_add: "distinct s \<Longrightarrow> distinct (foldl Set_add s xs)"
  by (induction xs arbitrary: s) (auto simp: Set_add_def)

lemma set_Set_from: "set (Set_from xs) = set xs"
  by (simp add: Set_from_def set_foldl_Set_add)

lemma distinct_Set_from: "distinct (Set_from xs)"
  by (simp add: Set_from_def distinct_foldl_Set_add)

text \<open>On a name that has no pair yet, \<^verbatim>\<open>set\<close> is \<^verbatim>\<open>append\<close>.\<close>

lemma params_set_fresh: "n \<notin> fst ` set ps \<Longrightarrow> params_set ps n v = ps @ [(n, v)]"
  by (induction ps n v rule: params_set.induct) auto

lemma foldl_params_append:
  "foldl (\<lambda>p v. params_append p key v) ps vs = ps @ map (Pair key) vs"
  by (induction vs arbitrary: ps) (auto simp: params_append_def)

lemma foldl_params_append_if:
  "foldl (\<lambda>p v. if v \<noteq> [] then params_append p key v else p) ps vs =
     ps @ map (Pair key) (filter (\<lambda>v. v \<noteq> []) vs)"
  by (induction vs arbitrary: ps) (auto simp: params_append_def)

text \<open>The serialiser's loop, in closed form.\<close>

lemma serialize_eq:
  "serialize out ps =
     (if ps = [] then out
      else (if out = [] then [] else out @ js ''&'') @
           join (js ''&'') (map (\<lambda>(n, v). urlencode n @ js ''='' @ urlencode v) ps))"
proof (induction ps arbitrary: out)
  case Nil
  show ?case by simp
next
  case (Cons p ps)
  obtain n v where p: "p = (n, v)" by (cases p)
  have ne: "js ''='' \<noteq> []" by (simp add: js_def)
  show ?case
  proof (cases ps)
    case Nil
    with p show ?thesis by simp
  next
    case (Cons q qs)
    then show ?thesis
      using Cons.IH [of "(if out = [] then out else out @ js ''&'') @ urlencode n @ js ''='' @ urlencode v"] p ne
      by simp
  qed
qed

lemma params_toString_eq:
  "params_toString ps = join (js ''&'') (map (\<lambda>(n, v). urlencode n @ js ''='' @ urlencode v) ps)"
  by (simp add: params_toString_def serialize_eq)

lemma join_Nil_iff: "\<forall>x \<in> set xs. x \<noteq> [] \<Longrightarrow> join sep xs = [] \<longleftrightarrow> xs = []"
  by (induction sep xs rule: join.induct) auto

lemma params_toString_Nil_iff: "params_toString ps = [] \<longleftrightarrow> ps = []"
  unfolding params_toString_eq
  by (subst join_Nil_iff) (auto simp: js_def)

section \<open>One field\<close>

lemma length_one: "length xs = Suc 0 \<Longrightarrow> \<exists>x. xs = [x]"
  by (cases xs) auto

lemma encodeField_throws:
  "fieldThrows element allValues \<Longrightarrow> encodeField element key allValues params = Inl TypeError"
  by (auto simp: fieldThrows_def encodeField_def)

lemma encodeField_total:
  "\<not> fieldThrows element allValues \<Longrightarrow> \<exists>ps. encodeField element key allValues params = Inr ps"
  by (cases element) (auto simp: encodeField_def Let_def fieldThrows_def split: bool.splits)

text \<open>
  In the loop every key is new to \<open>params\<close>, and the body then appends the field's
  pairs.
\<close>

lemma encodeField_returns:
  assumes "\<not> fieldThrows element allValues" and "key \<notin> fst ` set params"
  shows "encodeField element key allValues params = Inr (params @ fieldPairs element key allValues)"
proof (cases element)
  case Undefined
  with assms show ?thesis
    by (auto simp: fieldPairs_def encodeField_def Let_def params_set_fresh foldl_params_append_if)
next
  case (Control t a)
  with assms show ?thesis
    by (auto simp: fieldPairs_def encodeField_def Let_def params_set_fresh foldl_params_append_if
        foldl_params_append split: bool.splits)
next
  case RadioNodeList
  with assms show ?thesis
    by (auto simp: fieldPairs_def encodeField_def Let_def fieldThrows_def params_set_fresh
        foldl_params_append_if)
qed

lemma fieldPairs_names: "(n, v) \<in> set (fieldPairs element key allValues) \<Longrightarrow> n = key"
  by (cases element)
    (auto simp: fieldPairs_def encodeField_def Let_def foldl_params_append_if foldl_params_append
      split: if_splits bool.splits)

lemma fieldPairs_values: "(n, v) \<in> set (fieldPairs element key allValues) \<Longrightarrow> v \<noteq> []"
  by (cases element)
    (auto simp: fieldPairs_def encodeField_def Let_def foldl_params_append_if foldl_params_append
      js_def dest!: length_one split: if_splits bool.splits)

text \<open>
  A field with one value and a single control, or no control, that is neither a checkbox
  nor comma-separated: nothing for the empty string, the pair otherwise.
\<close>

lemma single_value_standard:
  assumes "element = Undefined \<or>
           (\<exists>t a. element = Control t a \<and> t \<noteq> js ''checkbox'' \<and> a \<noteq> Some (js ''comma''))"
    and "key \<notin> fst ` set params"
  shows "encodeField element key [value] params =
           (if value = [] then Inr params else Inr (params @ [(key, value)]))"
  using assms by (auto simp: encodeField_def params_set_fresh)

lemma single_value_empty: "encodeField element key [[]] params = Inr params"
  by (simp add: encodeField_def)

section \<open>The loop over the keys\<close>

lemma forKeys_throws:
  "\<exists>k \<in> set keys. fieldThrows (elements k) (FormData_getAll fd k) \<Longrightarrow>
   forKeys elements fd keys params = Inl TypeError"
proof (induction keys arbitrary: params)
  case Nil
  then show ?case by simp
next
  case (Cons key keys)
  show ?case
  proof (cases "fieldThrows (elements key) (FormData_getAll fd key)")
    case True
    then show ?thesis by (simp add: encodeField_throws)
  next
    case False
    then obtain ps where ps: "encodeField (elements key) key (FormData_getAll fd key) params = Inr ps"
      using encodeField_total by blast
    from False Cons.prems have "\<exists>k \<in> set keys. fieldThrows (elements k) (FormData_getAll fd k)"
      by auto
    then have "forKeys elements fd keys ps = Inl TypeError" by (rule Cons.IH)
    with ps show ?thesis by simp
  qed
qed

lemma forKeys_returns:
  assumes "distinct keys"
    and "\<forall>k \<in> set keys. k \<notin> fst ` set params"
    and "\<forall>k \<in> set keys. \<not> fieldThrows (elements k) (FormData_getAll fd k)"
  shows "forKeys elements fd keys params =
           Inr (params @ concat (map (\<lambda>k. fieldPairs (elements k) k (FormData_getAll fd k)) keys))"
  using assms
proof (induction keys arbitrary: params)
  case Nil
  then show ?case by simp
next
  case (Cons key keys)
  let ?out = "fieldPairs (elements key) key (FormData_getAll fd key)"
  have step: "encodeField (elements key) key (FormData_getAll fd key) params = Inr (params @ ?out)"
    using Cons.prems by (intro encodeField_returns) auto
  have fresh: "\<forall>k \<in> set keys. k \<notin> fst ` set (params @ ?out)"
  proof
    fix k assume k: "k \<in> set keys"
    with Cons.prems have "k \<noteq> key" and "k \<notin> fst ` set params" by auto
    moreover have "fst ` set ?out \<subseteq> {key}"
      using fieldPairs_names by fastforce
    ultimately show "k \<notin> fst ` set (params @ ?out)" by auto
  qed
  have "forKeys elements fd keys (params @ ?out) =
          Inr ((params @ ?out) @ concat (map (\<lambda>k. fieldPairs (elements k) k (FormData_getAll fd k)) keys))"
    using Cons.prems fresh by (intro Cons.IH) auto
  with step show ?case by simp
qed

text \<open>
  The collected parameters are the fields' pairs, one key after the other in the order
  of first appearance; the loop throws exactly on the forms with a throwing field.
\<close>

lemma collectParams_throws: "formThrows fd elements \<Longrightarrow> collectParams fd elements = Inl TypeError"
  unfolding collectParams_def formThrows_def
  by (rule forKeys_throws) (simp add: list_ex_iff set_Set_from)

lemma collectParams_returns:
  "\<not> formThrows fd elements \<Longrightarrow>
   collectParams fd elements =
     Inr (concat (map (\<lambda>k. fieldPairs (elements k) k (FormData_getAll fd k))
                      (Set_from (FormData_keys fd))))"
  unfolding collectParams_def formThrows_def
  using forKeys_returns [of "Set_from (FormData_keys fd)" "[]" elements fd]
  by (simp add: list_ex_iff set_Set_from distinct_Set_from)

lemma collectParams_Inr:
  assumes "collectParams fd elements = Inr ps"
  shows "ps = concat (map (\<lambda>k. fieldPairs (elements k) k (FormData_getAll fd k))
                      (Set_from (FormData_keys fd)))"
proof (cases "formThrows fd elements")
  case True
  with assms show ?thesis by (simp add: collectParams_throws)
next
  case False
  with assms show ?thesis by (simp add: collectParams_returns)
qed

lemma collectParams_values:
  assumes "collectParams fd elements = Inr ps" and "(n, v) \<in> set ps"
  shows "v \<noteq> []" and "n \<in> set (FormData_keys fd)"
proof -
  from assms obtain k where k: "k \<in> set (Set_from (FormData_keys fd))"
    and nv: "(n, v) \<in> set (fieldPairs (elements k) k (FormData_getAll fd k))"
    by (auto dest!: collectParams_Inr)
  from nv show "v \<noteq> []" by (rule fieldPairs_values)
  from nv have "n = k" by (rule fieldPairs_names)
  with k show "n \<in> set (FormData_keys fd)" by (simp add: set_Set_from)
qed

lemma collectParams_no_entries: "collectParams [] elements = Inr []"
  by (simp add: collectParams_def Set_from_def FormData_keys_def)

section \<open>The URL\<close>

lemma build_Inr:
  "collectParams fd elements = Inr ps \<Longrightarrow>
   build fd elements b =
     Inr \<lparr>queryString = params_toString ps,
          finalUrl = (if endsWith b 0x2F then b else b @ js ''/'') @
                     (if params_toString ps = [] then [] else js ''?'' @ params_toString ps)\<rparr>"
  by (simp add: build_def Let_def)

lemma build_Inl: "collectParams fd elements = Inl e \<Longrightarrow> build fd elements b = Inl e"
  by (simp add: build_def)

lemma build_returns_iff: "(\<exists>r. build fd elements b = Inr r) \<longleftrightarrow> \<not> formThrows fd elements"
proof (cases "formThrows fd elements")
  case True
  then show ?thesis by (simp add: collectParams_throws build_Inl)
next
  case False
  then show ?thesis using collectParams_returns [OF False] by (simp add: build_Inr)
qed

lemma updateUrl_throws:
  "formThrows (form_entries p) (form_elements p) \<Longrightarrow> updateUrl p = Inl TypeError"
  by (simp add: updateUrl_def collectParams_throws build_Inl)

section \<open>The examples, evaluated\<close>

lemmas eval_strings = js_def trim_def isWhiteSpace_def

lemmas eval_collect = collectParams_def Set_from_def Set_add_def FormData_keys_def
  FormData_getAll_def encodeField_def Let_def params_append_def

lemmas eval_encode = params_toString_def urlencode_def utf8Encode_def utf8_def urlencodeByte_def
  urlencodedKeeps_def isAlphanumeric_def percentEncodeByte_def hexDigit_def isSurrogate_def
  isLeadSurrogate_def isTrailSurrogate_def

lemma collectParams_example: "collectParams exampleEntries exampleControls = Inr exampleParams"
  by (simp add: eval_collect exampleEntries_def exampleControls_def exampleParams_def eval_strings)

lemma formThrows_example: "\<not> formThrows exampleEntries exampleControls"
  by (simp add: formThrows_def fieldThrows_def FormData_keys_def FormData_getAll_def
      exampleEntries_def exampleControls_def js_def)

lemma params_toString_example: "params_toString exampleParams = exampleQuery"
  by (simp add: exampleParams_def exampleQuery_def js_def eval_encode)

lemma urlencode_examples:
  "urlencode (js ''a b~!*()-._/?&=+%'') = js ''a+b%7E%21*%28%29-._%2F%3F%26%3D%2B%25''"
  "urlencode [0xE9] = js ''%C3%A9''"
  "urlencode [0x20AC] = js ''%E2%82%AC''"
  "urlencode [0xD83D, 0xDE00] = js ''%F0%9F%98%80''"
  "urlencode [0xD800] = js ''%EF%BF%BD''"
  by (simp_all add: js_def eval_encode)

lemma exampleQuery_not_Nil: "exampleQuery \<noteq> []"
  by (simp add: exampleQuery_def js_def)

lemma build_example:
  "build exampleEntries exampleControls (js ''https://x.com/market'') =
     Inr \<lparr>queryString = exampleQuery, finalUrl = exampleUrl\<rparr>"
  using build_Inr [OF collectParams_example, of "js ''https://x.com/market''"]
  by (simp add: params_toString_example endsWith_def exampleQuery_not_Nil exampleUrl_def js_def)

lemma updateUrl_example: "updateUrl examplePage = Inr updatedPage"
  by (simp add: updateUrl_def examplePage_def updatedPage_def build_example)

section \<open>The claims\<close>

text \<open>
  Claim C1. A field on the comma-separated rule, which is the else-branch of the
  checkbox rule: a control that is not a checkbox, whose \<^verbatim>\<open>data-array\<close> is \<^verbatim>\<open>comma\<close>, with
  exactly one value, not empty. The value is split on \<open>,\<close> (code unit 0x2C), each piece
  is trimmed, the pieces that became empty are dropped, and one pair (key, piece) is
  appended for each piece left, in split order. When no piece is left, nothing is
  appended.
\<close>

theorem comma_array_pieces:
  assumes "t \<noteq> js ''checkbox''" and "value \<noteq> []"
  shows "encodeField (Control t (Some (js ''comma''))) key [value] params =
           Inr (params @ map (Pair key) (filter (\<lambda>s. s \<noteq> []) (map trim (split 0x2C value))))"
  using assms by (simp add: encodeField_def Let_def foldl_params_append)

theorem comma_array_pieces_witness:
  "js ''text'' \<noteq> js ''checkbox'' \<and> js ''a, b ,,c'' \<noteq> [] \<and> js '' , ,'' \<noteq> [] \<and>
   encodeField (Control (js ''text'') (Some (js ''comma''))) (js ''keywords'') [js ''a, b ,,c''] [] =
     Inr [(js ''keywords'', js ''a''), (js ''keywords'', js ''b''), (js ''keywords'', js ''c'')] \<and>
   encodeField (Control (js ''text'') (Some (js ''comma''))) (js ''keywords'') [js '' , ,''] [] = Inr []"
proof -
  have t: "js ''text'' \<noteq> js ''checkbox''" by (simp add: js_def)
  have v: "js ''a, b ,,c'' \<noteq> []" and w: "js '' , ,'' \<noteq> []" by (simp_all add: js_def)
  show ?thesis
    using t v w
      comma_array_pieces [OF t v, of "js ''keywords''" "[]"]
      comma_array_pieces [OF t w, of "js ''keywords''" "[]"]
    by (simp add: eval_strings)
qed

text \<open>
  Claim C2. A checkbox with exactly one value, not empty, contributes exactly the pair
  (key, \<open>true\<close>), whatever the value is; a field without values contributes nothing, and
  a key that is not among the form's entries has no pair in the collected parameters.
\<close>

theorem checkbox_true:
  "(value \<noteq> [] \<longrightarrow> key \<notin> fst ` set params \<longrightarrow>
      encodeField (Control (js ''checkbox'') a) key [value] params =
        Inr (params @ [(key, js ''true'')])) \<and>
   encodeField element key [] params = Inr params \<and>
   (key \<notin> set (FormData_keys fd) \<longrightarrow> collectParams fd elements = Inr ps \<longrightarrow>
      key \<notin> fst ` set ps)"
proof (intro conjI impI)
  assume "value \<noteq> []" and "key \<notin> fst ` set params"
  then show "encodeField (Control (js ''checkbox'') a) key [value] params =
               Inr (params @ [(key, js ''true'')])"
    by (simp add: encodeField_def params_set_fresh)
next
  show "encodeField element key [] params = Inr params"
    by (simp add: encodeField_def)
next
  assume "key \<notin> set (FormData_keys fd)" and "collectParams fd elements = Inr ps"
  then show "key \<notin> fst ` set ps"
    using collectParams_values(2) by fastforce
qed

theorem checkbox_true_witness:
  "js ''on'' \<noteq> [] \<and> js ''availability'' \<notin> fst ` set ([] :: params) \<and>
   encodeField (Control (js ''checkbox'') None) (js ''availability'') [js ''on''] [] =
     Inr [(js ''availability'', js ''true'')] \<and>
   encodeField (Control (js ''checkbox'') None) (js ''availability'') [] [] = Inr [] \<and>
   js ''availability'' \<notin> set (FormData_keys [(js ''query'', js ''bike'')]) \<and>
   collectParams [(js ''query'', js ''bike'')] noControls = Inr [(js ''query'', js ''bike'')] \<and>
   js ''availability'' \<notin> fst ` set [(js ''query'', js ''bike'')]"
proof -
  have c: "collectParams [(js ''query'', js ''bike'')] noControls = Inr [(js ''query'', js ''bike'')]"
    by (simp add: eval_collect noControls_def js_def)
  show ?thesis
    using c
      checkbox_true [of "js ''on''" "js ''availability''" "[]" None
        "Control (js ''checkbox'') None" "[(js ''query'', js ''bike'')]" noControls
        "[(js ''query'', js ''bike'')]"]
    by (simp add: js_def FormData_keys_def)
qed

text \<open>
  Claim C3. A field with more than one value contributes one pair (key, v) for each
  value v that is not empty, in the order of the values; empty values are dropped.
\<close>

theorem multi_value_pairs:
  "1 < length allValues \<Longrightarrow>
   encodeField element key allValues params =
     Inr (params @ map (Pair key) (filter (\<lambda>v. v \<noteq> []) allValues))"
  by (simp add: encodeField_def foldl_params_append_if)

theorem multi_value_pairs_witness:
  "1 < length [js ''a'', js '''', js ''b''] \<and>
   encodeField RadioNodeList (js ''itemCondition'') [js ''a'', js '''', js ''b''] [] =
     Inr [(js ''itemCondition'', js ''a''), (js ''itemCondition'', js ''b'')]"
  using multi_value_pairs [of "[js ''a'', js '''', js ''b'']" RadioNodeList "js ''itemCondition''" "[]"]
  by (simp add: js_def)

text \<open>
  Claim C4 says that a field with one value, not empty, that is neither a checkbox nor
  comma-separated contributes the pair (key, value). For a group of checkboxes of which
  one is checked the control lookup gives a node list, and the test of
  \<^verbatim>\<open>element.dataset.array\<close> throws instead.
\<close>

theorem single_value_group_throws:
  "encodeField RadioNodeList (js ''itemCondition'') [js ''new''] [] = Inl TypeError"
  by (simp add: encodeField_def js_def)

text \<open>
  Claim C5, amended. The query string is the application/x-www-form-urlencoded
  serialisation of the collected pairs: every name and value goes through \<open>urlencode\<close>
  (UTF-8 bytes; a space becomes \<open>+\<close>; letters, digits and \<open>* - . _\<close> stay; every other byte
  becomes \<open>%\<close> and two hexadecimal digits), name and value are joined with \<open>=\<close>, the pairs
  with \<open>&\<close>, and no pairs give the empty string.
\<close>

theorem queryString_urlencoded:
  "params_toString ps =
     join (js ''&'') (map (\<lambda>(n, v). urlencode n @ js ''='' @ urlencode v) ps) \<and>
   params_toString [] = [] \<and>
   (collectParams fd elements = Inr ps \<longrightarrow>
      (\<exists>r. build fd elements b = Inr r \<and> queryString r = params_toString ps))"
  by (simp add: params_toString_eq build_Inr)

theorem queryString_urlencoded_witness:
  "collectParams exampleEntries exampleControls = Inr exampleParams \<and>
   (\<exists>r. build exampleEntries exampleControls (js ''https://x.com/market'') = Inr r \<and>
        queryString r = exampleQuery)"
proof -
  note c = collectParams_example
  have "\<exists>r. build exampleEntries exampleControls (js ''https://x.com/market'') = Inr r \<and>
            queryString r = params_toString exampleParams"
    using queryString_urlencoded [of exampleParams exampleEntries exampleControls
        "js ''https://x.com/market''"] c
    by blast
  with c show ?thesis by (simp only: params_toString_example simp_thms)
qed

text \<open>
  Claim C5 as stated fails on a value with a space: the component percent-encoding of
  the specification's wording writes \<open>%20\<close>, the source writes \<open>+\<close>.
\<close>

theorem queryString_component_counterexample:
  "params_toString [(js ''query'', js ''red bike'')] = js ''query=red+bike'' \<and>
   spec_queryString [(js ''query'', js ''red bike'')] = js ''query=red%20bike'' \<and>
   params_toString [(js ''query'', js ''red bike'')] \<noteq>
     spec_queryString [(js ''query'', js ''red bike'')]"
  by (simp add: js_def eval_encode spec_queryString_def spec_componentEncode_def componentKeeps_def)

text \<open>
  Claim C6 says that for every input \<open>build\<close> appends \<open>/\<close> to the base URL exactly
  when it does not end with \<open>/\<close> and returns the final URL made of the base URL so
  normalised and, when the query string is not empty, \<open>?\<close> and the query string. On a
  form with a group of checkboxes that share a name, of which exactly one is checked,
  the loop over the fields throws before the base URL is read: with the base URL
  \<open>https://x.com/market\<close> no final URL is returned.
\<close>

theorem finalUrl_group_throws:
  "build [(js ''itemCondition'', js ''new'')] itemConditionGroup (js ''https://x.com/market'') =
     Inl TypeError"
  by (rule build_Inl) (simp add: eval_collect itemConditionGroup_def js_def)

text \<open>
  On every form on which the loop over the fields does not throw, \<open>build\<close> returns
  that composition (the separator \<open>/\<close> is code unit 0x2F), and every result that
  \<open>build\<close> returns has its final URL composed so from the base URL and its own query
  string. A form without entries and the base URL \<open>https://x.com/\<close> give the empty
  query string and the final URL \<open>https://x.com/\<close>.
\<close>

lemma finalUrl_composition:
  "(\<not> formThrows fd elements \<longrightarrow>
      (\<exists>ps. collectParams fd elements = Inr ps \<and>
         build fd elements baseUrl =
           Inr \<lparr>queryString = params_toString ps,
                finalUrl = (if endsWith baseUrl 0x2F then baseUrl else baseUrl @ js ''/'') @
                           (if params_toString ps = [] then []
                            else js ''?'' @ params_toString ps)\<rparr>)) \<and>
   (build fd elements baseUrl = Inr r \<longrightarrow>
      finalUrl r = (if endsWith baseUrl 0x2F then baseUrl else baseUrl @ js ''/'') @
                   (if queryString r = [] then [] else js ''?'' @ queryString r)) \<and>
   build [] elements (js ''https://x.com/'') =
     Inr \<lparr>queryString = [], finalUrl = js ''https://x.com/''\<rparr>"
proof (intro conjI impI)
  assume r: "build fd elements baseUrl = Inr r"
  then obtain ps where "collectParams fd elements = Inr ps"
    by (cases "collectParams fd elements") (simp_all add: build_def)
  from build_Inr [OF this, of baseUrl] r
  show "finalUrl r = (if endsWith baseUrl 0x2F then baseUrl else baseUrl @ js ''/'') @
                   (if queryString r = [] then [] else js ''?'' @ queryString r)"
    by auto
next
  assume "\<not> formThrows fd elements"
  then obtain ps where "collectParams fd elements = Inr ps"
    using collectParams_returns by blast
  then show "\<exists>ps. collectParams fd elements = Inr ps \<and>
         build fd elements baseUrl =
           Inr \<lparr>queryString = params_toString ps,
                finalUrl = (if endsWith baseUrl 0x2F then baseUrl else baseUrl @ js ''/'') @
                           (if params_toString ps = [] then []
                            else js ''?'' @ params_toString ps)\<rparr>"
    using build_Inr by blast
next
  have "params_toString [] = []" by (simp add: params_toString_def)
  moreover have "endsWith (js ''https://x.com/'') 0x2F" by (simp add: endsWith_def js_def)
  ultimately show "build [] elements (js ''https://x.com/'') =
     Inr \<lparr>queryString = [], finalUrl = js ''https://x.com/''\<rparr>"
    using build_Inr [OF collectParams_no_entries, of elements "js ''https://x.com/''"] by simp
qed

lemma finalUrl_composition_example:
  "\<not> formThrows exampleEntries exampleControls \<and>
   build exampleEntries exampleControls (js ''https://x.com/market'') =
     Inr \<lparr>queryString = exampleQuery, finalUrl = js ''https://x.com/market/?'' @ exampleQuery\<rparr> \<and>
   build exampleEntries exampleControls (js ''https://x.com/market/'') =
     Inr \<lparr>queryString = exampleQuery, finalUrl = js ''https://x.com/market/?'' @ exampleQuery\<rparr>"
proof -
  note t = formThrows_example
  have "\<exists>ps. collectParams exampleEntries exampleControls = Inr ps \<and>
         build exampleEntries exampleControls (js ''https://x.com/market'') =
           Inr \<lparr>queryString = params_toString ps,
                finalUrl = (if endsWith (js ''https://x.com/market'') 0x2F
                            then js ''https://x.com/market''
                            else js ''https://x.com/market'' @ js ''/'') @
                           (if params_toString ps = [] then []
                            else js ''?'' @ params_toString ps)\<rparr>"
    using finalUrl_composition [of exampleEntries exampleControls "js ''https://x.com/market''"] t
    by blast
  then have 1: "build exampleEntries exampleControls (js ''https://x.com/market'') =
     Inr \<lparr>queryString = exampleQuery, finalUrl = js ''https://x.com/market/?'' @ exampleQuery\<rparr>"
    by (auto simp: collectParams_example params_toString_example endsWith_def
        exampleQuery_not_Nil js_def)
  have "\<exists>ps. collectParams exampleEntries exampleControls = Inr ps \<and>
         build exampleEntries exampleControls (js ''https://x.com/market/'') =
           Inr \<lparr>queryString = params_toString ps,
                finalUrl = (if endsWith (js ''https://x.com/market/'') 0x2F
                            then js ''https://x.com/market/''
                            else js ''https://x.com/market/'' @ js ''/'') @
                           (if params_toString ps = [] then []
                            else js ''?'' @ params_toString ps)\<rparr>"
    using finalUrl_composition [of exampleEntries exampleControls "js ''https://x.com/market/''"] t
    by blast
  then have 2: "build exampleEntries exampleControls (js ''https://x.com/market/'') =
     Inr \<lparr>queryString = exampleQuery, finalUrl = js ''https://x.com/market/?'' @ exampleQuery\<rparr>"
    by (auto simp: collectParams_example params_toString_example endsWith_def
        exampleQuery_not_Nil js_def)
  from t 1 2 show ?thesis by blast
qed

text \<open>
  Claim C7. What \<^verbatim>\<open>updateUrl\<close> writes depends on the form's entries, the form's controls
  and the base URL only: two pages that agree on these three get the same text and link
  (or throw alike), whatever their lock and their earlier text and link are; what is
  written is the final URL of \<open>build\<close> on the three; and running \<^verbatim>\<open>updateUrl\<close> again on
  its own result changes nothing.
\<close>

theorem updateUrl_pure:
  "(form_entries p = form_entries q \<longrightarrow> form_elements p = form_elements q \<longrightarrow>
    baseUrlInput_value p = baseUrlInput_value q \<longrightarrow>
      map_sum id (\<lambda>p'. (generatedUrlTextarea_value p', goToFbButton_href p')) (updateUrl p) =
      map_sum id (\<lambda>q'. (generatedUrlTextarea_value q', goToFbButton_href q')) (updateUrl q)) \<and>
   map_sum id (\<lambda>p'. (generatedUrlTextarea_value p', goToFbButton_href p')) (updateUrl p) =
     map_sum id (\<lambda>r. (finalUrl r, finalUrl r))
       (build (form_entries p) (form_elements p) (baseUrlInput_value p)) \<and>
   (updateUrl p = Inr p' \<longrightarrow> updateUrl p' = Inr p')"
  by (auto simp: updateUrl_def split: sum.splits)

theorem updateUrl_pure_witness:
  "form_entries examplePage = form_entries stalePage \<and>
   form_elements examplePage = form_elements stalePage \<and>
   baseUrlInput_value examplePage = baseUrlInput_value stalePage \<and>
   examplePage \<noteq> stalePage \<and>
   map_sum id (\<lambda>p'. (generatedUrlTextarea_value p', goToFbButton_href p')) (updateUrl examplePage) =
     Inr (exampleUrl, exampleUrl) \<and>
   map_sum id (\<lambda>q'. (generatedUrlTextarea_value q', goToFbButton_href q')) (updateUrl stalePage) =
     Inr (exampleUrl, exampleUrl) \<and>
   updateUrl examplePage = Inr updatedPage \<and>
   updateUrl updatedPage = Inr updatedPage"
proof -
  have i: "form_entries examplePage = form_entries stalePage"
    "form_elements examplePage = form_elements stalePage"
    "baseUrlInput_value examplePage = baseUrlInput_value stalePage"
    by (simp_all add: stalePage_def)
  have d: "examplePage \<noteq> stalePage"
  proof
    assume "examplePage = stalePage"
    then have "baseUrlInput_readOnly examplePage = baseUrlInput_readOnly stalePage" by simp
    then show False by (simp add: stalePage_def examplePage_def)
  qed
  note u = updateUrl_example
  have w: "map_sum id (\<lambda>p'. (generatedUrlTextarea_value p', goToFbButton_href p')) (updateUrl examplePage) =
     Inr (exampleUrl, exampleUrl)"
    by (simp add: u updatedPage_def)
  from updateUrl_pure [of examplePage stalePage updatedPage] i u w
  have "map_sum id (\<lambda>q'. (generatedUrlTextarea_value q', goToFbButton_href q')) (updateUrl stalePage) =
     Inr (exampleUrl, exampleUrl)"
    and "updateUrl updatedPage = Inr updatedPage"
    by simp_all
  with i d u w show ?thesis by blast
qed

text \<open>
  Claim C8 says that \<open>build\<close> cannot throw. On a form with a group of checkboxes that
  share a name, of which exactly one is checked, it throws a TypeError.
\<close>

theorem build_group_throws:
  "build [(js ''itemCondition'', js ''new'')] itemConditionGroup (js ''https://x.com/'') =
     Inl TypeError"
  by (rule build_Inl) (simp add: eval_collect itemConditionGroup_def js_def)

text \<open>
  Claim C9. No pair of the collected parameters has an empty value.
\<close>

theorem params_values_nonempty:
  "collectParams fd elements = Inr ps \<Longrightarrow> \<forall>(n, v) \<in> set ps. v \<noteq> []"
  using collectParams_values(1) by fastforce

theorem params_values_nonempty_witness:
  "collectParams exampleEntries exampleControls = Inr exampleParams \<and>
   list_all (\<lambda>(n, v). v \<noteq> []) exampleParams"
  using params_values_nonempty [OF collectParams_example] collectParams_example
  by (simp add: list_all_iff)

text \<open>
  Claim C10 says that with the empty base URL \<open>build\<close> still normalises, so that the
  final URL is \<open>/\<close> when the query string is empty and \<open>/?\<close> followed by the query
  string otherwise, for any input. On a form with a group of checkboxes that share a
  name, of which exactly one is checked, and the empty base URL, the loop over the
  fields throws and no final URL is returned.
\<close>

theorem empty_baseUrl_group_throws:
  "build [(js ''itemCondition'', js ''new'')] itemConditionGroup [] = Inl TypeError"
  by (rule build_Inl) (simp add: eval_collect itemConditionGroup_def js_def)

text \<open>
  On every form on which the loop over the fields does not throw, \<open>build\<close> with the
  empty base URL returns \<open>/\<close> or \<open>/?\<close> and the query string, every result it returns
  is of that form, and no final URL that \<open>build\<close> returns is empty.
\<close>

lemma empty_baseUrl:
  "(\<not> formThrows fd elements \<longrightarrow>
      (\<exists>ps. collectParams fd elements = Inr ps \<and>
         build fd elements [] =
           Inr \<lparr>queryString = params_toString ps,
                finalUrl = (if params_toString ps = [] then js ''/''
                            else js ''/?'' @ params_toString ps)\<rparr>)) \<and>
   (build fd elements [] = Inr r' \<longrightarrow>
      finalUrl r' = (if queryString r' = [] then js ''/'' else js ''/?'' @ queryString r')) \<and>
   (build fd elements baseUrl = Inr r \<longrightarrow> finalUrl r \<noteq> [])"
proof (intro conjI impI)
  assume r: "build fd elements [] = Inr r'"
  then obtain ps where "collectParams fd elements = Inr ps"
    by (cases "collectParams fd elements") (simp_all add: build_def)
  from build_Inr [OF this, of "[]"] r
  show "finalUrl r' = (if queryString r' = [] then js ''/'' else js ''/?'' @ queryString r')"
    by (auto simp: endsWith_def js_def)
next
  assume "\<not> formThrows fd elements"
  then obtain ps where ps: "collectParams fd elements = Inr ps"
    using collectParams_returns by blast
  then have "build fd elements [] =
        Inr \<lparr>queryString = params_toString ps,
             finalUrl = (if params_toString ps = [] then js ''/''
                         else js ''/?'' @ params_toString ps)\<rparr>"
    by (simp add: build_Inr endsWith_def js_def)
  with ps show "\<exists>ps. collectParams fd elements = Inr ps \<and>
         build fd elements [] =
           Inr \<lparr>queryString = params_toString ps,
                finalUrl = (if params_toString ps = [] then js ''/''
                            else js ''/?'' @ params_toString ps)\<rparr>"
    by blast
next
  assume r: "build fd elements baseUrl = Inr r"
  then obtain ps where "collectParams fd elements = Inr ps"
    by (cases "collectParams fd elements") (simp_all add: build_def)
  from build_Inr [OF this, of baseUrl] r show "finalUrl r \<noteq> []"
    by (auto simp: endsWith_def js_def)
qed

lemma empty_baseUrl_example:
  "\<not> formThrows exampleEntries exampleControls \<and>
   build exampleEntries exampleControls [] =
     Inr \<lparr>queryString = exampleQuery, finalUrl = js ''/?'' @ exampleQuery\<rparr> \<and>
   \<not> formThrows [] noControls \<and>
   build [] noControls [] = Inr \<lparr>queryString = [], finalUrl = js ''/''\<rparr> \<and>
   finalUrl \<lparr>queryString = [], finalUrl = js ''/''\<rparr> \<noteq> []"
proof -
  note t = formThrows_example
  have n: "\<not> formThrows [] noControls" by (simp add: formThrows_def FormData_keys_def)
  have "\<exists>ps. collectParams exampleEntries exampleControls = Inr ps \<and>
         build exampleEntries exampleControls [] =
           Inr \<lparr>queryString = params_toString ps,
                finalUrl = (if params_toString ps = [] then js ''/''
                            else js ''/?'' @ params_toString ps)\<rparr>"
    using empty_baseUrl [of exampleEntries exampleControls] t by blast
  then have 1: "build exampleEntries exampleControls [] =
     Inr \<lparr>queryString = exampleQuery, finalUrl = js ''/?'' @ exampleQuery\<rparr>"
    by (auto simp: collectParams_example params_toString_example exampleQuery_not_Nil)
  have "\<exists>ps. collectParams [] noControls = Inr ps \<and>
         build [] noControls [] =
           Inr \<lparr>queryString = params_toString ps,
                finalUrl = (if params_toString ps = [] then js ''/''
                            else js ''/?'' @ params_toString ps)\<rparr>"
    using empty_baseUrl [of "[]" noControls] n by blast
  then have 2: "build [] noControls [] = Inr \<lparr>queryString = [], finalUrl = js ''/''\<rparr>"
    by (auto simp: collectParams_no_entries params_toString_def)
  have 3: "finalUrl \<lparr>queryString = [], finalUrl = js ''/''\<rparr> \<noteq> []"
    using empty_baseUrl [of "[]" noControls _ "[]" "\<lparr>queryString = [], finalUrl = js ''/''\<rparr>"] 2
    by blast
  from t n 1 2 3 show ?thesis by blast
qed

end
